theory Spec2Isabelle
  imports Complex_Main "HOL-Library.AList"
begin

section \<open>The ledger core of firstpbl.py\<close>

text \<open>
  The development embeds the classes \<open>Account\<close> and \<open>BankManagementSystem\<close> of
  \<open>firstpbl.py\<close>. Conventions of the embedding:

  \<^item> A method that mutates \<open>self\<close> and may raise returns a pair: the outcome
    (\<open>Inl\<close> the exception, \<open>Inr\<close> the returned value) and the object as the call leaves it.
  \<^item> Monetary values are Python \<open>float\<close>s in the source. They are embedded as exact
    rationals: rounding, infinities and NaN are outside the model.
  \<^item> Every call of \<open>datetime.now().strftime(...)\<close> is a parameter holding the formatted
    clock reading.
  \<^item> A character is a code point below 256.
\<close>

subsection \<open>Exceptions\<close>

text \<open>
  The four exception classes of the source, \<open>ValueError\<close> (raised by \<open>int\<close>) and the plain
  \<open>Exception\<close> that \<open>create_account\<close> raises in place of whatever it caught. The message
  of \<open>InsufficientBalanceError\<close> is the text \<open>Insufficient balance. Available:\<close> followed
  by the currency sign and the balance printed with two decimals; the model keeps the
  balance that is printed. \<open>ValueError\<close> keeps the rejected literal, and \<open>Exception\<close> the
  exception whose message it embeds after \<open>Failed to create account:\<close>.
\<close>

datatype error =
    InsufficientBalanceError rat
  | InvalidAccountError string
  | InvalidPINError string
  | InvalidAmountError string
  | ValueError string
  | Exception error

subsection \<open>Account\<close>

text \<open>An entry of \<open>Account.transactions\<close>: the dictionary with the keys
  \<open>type\<close>, \<open>amount\<close>, \<open>balance\<close> and \<open>date\<close> that \<open>_add_transaction\<close> builds.\<close>

record transaction =
  tx_type :: string
  tx_amount :: rat
  tx_balance :: rat
  tx_date :: string

record account =
  account_number :: string
  name :: string
  pin :: string
  balance :: rat
  account_type :: string
  creation_date :: string
  transactions :: "transaction list"

text \<open>\<open>Account.__init__\<close>; \<open>now\<close> is the clock reading stored as creation date.\<close>

definition Account :: "string \<Rightarrow> string \<Rightarrow> string \<Rightarrow> rat \<Rightarrow> string \<Rightarrow> string \<Rightarrow> account" where
  "Account account_number' name' pin' balance' account_type' now =
     \<lparr>account_number = account_number', name = name', pin = pin', balance = balance',
      account_type = account_type', creation_date = now, transactions = []\<rparr>"

text \<open>\<open>Account._add_transaction\<close>\<close>

definition add_transaction :: "account \<Rightarrow> string \<Rightarrow> rat \<Rightarrow> rat \<Rightarrow> string \<Rightarrow> account" where
  "add_transaction self trans_type amount balance' now =
     self\<lparr>transactions := transactions self @
       [\<lparr>tx_type = trans_type, tx_amount = amount, tx_balance = balance', tx_date = now\<rparr>]\<rparr>"

text \<open>\<open>Account.deposit\<close>\<close>

definition deposit :: "account \<Rightarrow> rat \<Rightarrow> string \<Rightarrow> (error + unit) \<times> account" where
  "deposit self amount now =
     (if amount \<le> 0 then (Inl (InvalidAmountError ''Deposit amount must be positive''), self)
      else
        let self = self\<lparr>balance := balance self + amount\<rparr>
        in (Inr (), add_transaction self ''Deposit'' amount (balance self) now))"

text \<open>\<open>Account.withdraw\<close>\<close>

definition withdraw :: "account \<Rightarrow> rat \<Rightarrow> string \<Rightarrow> (error + unit) \<times> account" where
  "withdraw self amount now =
     (if amount \<le> 0 then (Inl (InvalidAmountError ''Withdrawal amount must be positive''), self)
      else if amount > balance self then (Inl (InsufficientBalanceError (balance self)), self)
      else
        let self = self\<lparr>balance := balance self - amount\<rparr>
        in (Inr (), add_transaction self ''Withdrawal'' amount (balance self) now))"


definition calculate_interest :: "account \<Rightarrow> rat \<Rightarrow> rat" where
  "calculate_interest self rate = (balance self * rate) / 100"

text \<open>\<open>Account.add_interest\<close>\<close>

definition add_interest :: "account \<Rightarrow> rat \<Rightarrow> string \<Rightarrow> (error + unit) \<times> account" where
  "add_interest self rate now =
     (let interest = calculate_interest self rate;
          self = self\<lparr>balance := balance self + interest\<rparr>
      in (Inr (), add_transaction self ''Interest Credit'' interest (balance self) now))"

text \<open>\<open>Account.verify_pin\<close> and \<open>Account.update_pin\<close>\<close>

definition verify_pin :: "account \<Rightarrow> string \<Rightarrow> bool" where
  "verify_pin self pin' = (pin self = pin')"

definition update_pin :: "account \<Rightarrow> string \<Rightarrow> account" where
  "update_pin self new_pin = self\<lparr>pin := new_pin\<rparr>"

subsection \<open>Decoded JSON\<close>

text \<open>
  What \<open>json.dump\<close> is given and what \<open>json.load\<close> returns: a Python dictionary is an
  object, a list an array. The text written to the file is not modelled; the file holds
  the decoded value.
\<close>

datatype json =
    JNull
  | JBool bool
  | JNumber rat
  | JString string
  | JArray "json list"
  | JObject "(string \<times> json) list"

text \<open>\<open>Account.get_details\<close>, with the entries of the log as the dictionaries they are.\<close>

definition transaction_json :: "transaction \<Rightarrow> json" where
  "transaction_json t =
     JObject [(''type'', JString (tx_type t)), (''amount'', JNumber (tx_amount t)),
              (''balance'', JNumber (tx_balance t)), (''date'', JString (tx_date t))]"

definition get_details :: "account \<Rightarrow> json" where
  "get_details self =
     JObject [(''account_number'', JString (account_number self)),
              (''name'', JString (name self)),
              (''pin'', JString (pin self)),
              (''balance'', JNumber (balance self)),
              (''account_type'', JString (account_type self)),
              (''creation_date'', JString (creation_date self)),
              (''transactions'', JArray (map transaction_json (transactions self)))]"

text \<open>
  Subscripting a decoded value, \<open>d[k]\<close>, at the type the record field has. \<open>None\<close> stands
  for the exception of a missing key or of a value that is no dictionary, and for a value
  of another type than the field, which the typed records cannot hold.
\<close>

definition get_string :: "json \<Rightarrow> string \<Rightarrow> string option" where
  "get_string d k =
     (case d of
        JObject kvs \<Rightarrow> (case map_of kvs k of Some (JString s) \<Rightarrow> Some s | _ \<Rightarrow> None)
      | _ \<Rightarrow> None)"

definition get_number :: "json \<Rightarrow> string \<Rightarrow> rat option" where
  "get_number d k =
     (case d of
        JObject kvs \<Rightarrow> (case map_of kvs k of Some (JNumber x) \<Rightarrow> Some x | _ \<Rightarrow> None)
      | _ \<Rightarrow> None)"

definition json_transaction :: "json \<Rightarrow> transaction option" where
  "json_transaction j =
     (case (get_string j ''type'', get_number j ''amount'',
            get_number j ''balance'', get_string j ''date'') of
        (Some t, Some a, Some b, Some d) \<Rightarrow>
          Some \<lparr>tx_type = t, tx_amount = a, tx_balance = b, tx_date = d\<rparr>
      | _ \<Rightarrow> None)"

definition get_transactions :: "json \<Rightarrow> transaction list option" where
  "get_transactions d =
     (case d of
        JObject kvs \<Rightarrow>
          (case map_of kvs ''transactions'' of
             Some (JArray js) \<Rightarrow> those (map json_transaction js)
           | _ \<Rightarrow> None)
      | _ \<Rightarrow> None)"

subsection \<open>Text and numbers\<close>

text \<open>
  \<open>int(s)\<close> on a string: white space around the literal is skipped, one sign may
  precede the digits, and single underscores may stand between digits. The decimal
  digits and white space beyond code point 255 and the interpreter's limit on the
  length of a numeral are not modelled.
\<close>

definition is_space :: "char \<Rightarrow> bool" where
  "is_space c = (of_char c \<in> {9, 10, 11, 12, 13, 32, 133, 160 :: nat})"

definition is_digit :: "char \<Rightarrow> bool" where
  "is_digit c = (48 \<le> (of_char c :: nat) \<and> (of_char c :: nat) \<le> 57)"

definition digit_val :: "char \<Rightarrow> nat" where
  "digit_val c = of_char c - 48"

definition strip :: "string \<Rightarrow> string" where
  "strip s = rev (dropWhile is_space (rev (dropWhile is_space s)))"

fun digits_tail :: "nat \<Rightarrow> string \<Rightarrow> nat option" where
  "digits_tail v [] = Some v"
| "digits_tail v (c # cs) =
     (if is_digit c then digits_tail (10 * v + digit_val c) cs
      else if c = CHR ''_'' then
        (case cs of
           [] \<Rightarrow> None
         | d # ds \<Rightarrow> if is_digit d then digits_tail (10 * v + digit_val d) ds else None)
      else None)"

definition digits :: "string \<Rightarrow> nat option" where
  "digits s = (case s of [] \<Rightarrow> None
               | c # cs \<Rightarrow> if is_digit c then digits_tail (digit_val c) cs else None)"

definition py_int :: "string \<Rightarrow> error + int" where
  "py_int s =
     (let t = strip s;
          (sign, body) = (case t of
                            [] \<Rightarrow> (1, [])
                          | c # cs \<Rightarrow> if c = CHR ''+'' then (1, cs)
                                      else if c = CHR ''-'' then (- 1, cs)
                                      else (1, t))
      in case digits body of
           None \<Rightarrow> Inl (ValueError s)
         | Some n \<Rightarrow> Inr (sign * int n))"

text \<open>\<open>str(n)\<close> on an integer, as the f-string of \<open>generate_account_number\<close> prints it.\<close>

definition digit_char :: "nat \<Rightarrow> char" where
  "digit_char d = char_of (48 + d)"

fun str_nat :: "nat \<Rightarrow> string" where
  "str_nat n = (if n < 10 then [digit_char n] else str_nat (n div 10) @ [digit_char (n mod 10)])"

definition py_str :: "int \<Rightarrow> string" where
  "py_str i = (if i < 0 then CHR ''-'' # str_nat (nat (- i)) else str_nat (nat i))"

subsection \<open>BankManagementSystem\<close>

text \<open>
  \<open>accounts\<close> is the dictionary in insertion order. \<open>data_file\<close> is the content of the
  file of that name: \<open>None\<close> when it does not exist, else the value \<open>json.load\<close> decodes
  from it. Reading and writing the file succeed in the model.
\<close>

record bank_management_system =
  accounts :: "(string \<times> account) list"
  data_file :: "json option"

text \<open>
  The body of the loop of \<open>load_data\<close> up to the insertion: the account built from one
  value of the file. The clock reading the constructor stores is overwritten at once.
\<close>

definition load_account :: "json \<Rightarrow> string \<Rightarrow> account option" where
  "load_account acc_data now =
     (case (get_string acc_data ''account_number'', get_string acc_data ''name'',
            get_string acc_data ''pin'', get_number acc_data ''balance'',
            get_string acc_data ''account_type'') of
        (Some n, Some nm, Some p, Some b, Some ty) \<Rightarrow>
          (let account = Account n nm p b ty now in
           case get_string acc_data ''creation_date'' of
             None \<Rightarrow> None
           | Some cd \<Rightarrow>
               (let account = account\<lparr>creation_date := cd\<rparr> in
                case get_transactions acc_data of
                  None \<Rightarrow> None
                | Some ts \<Rightarrow> Some (account\<lparr>transactions := ts\<rparr>)))
      | _ \<Rightarrow> None)"

text \<open>The loop of \<open>load_data\<close>: an exception ends it and keeps what was inserted before.\<close>

fun load_items :: "(string \<times> json) list \<Rightarrow> string \<Rightarrow> (string \<times> account) list
    \<Rightarrow> (string \<times> account) list" where
  "load_items [] now accs = accs"
| "load_items ((acc_num, acc_data) # rest) now accs =
     (case load_account acc_data now of
        None \<Rightarrow> accs
      | Some account \<Rightarrow> load_items rest now (AList.update acc_num account accs))"

definition load_data :: "bank_management_system \<Rightarrow> string \<Rightarrow> bank_management_system" where
  "load_data self now =
     (case data_file self of
        None \<Rightarrow> self
      | Some (JObject items) \<Rightarrow> self\<lparr>accounts := load_items items now (accounts self)\<rparr>
      | Some _ \<Rightarrow> self)"

text \<open>\<open>BankManagementSystem.__init__\<close> on the content of the data file.\<close>

definition BankManagementSystem :: "json option \<Rightarrow> string \<Rightarrow> bank_management_system" where
  "BankManagementSystem file now = load_data \<lparr>accounts = [], data_file = file\<rparr> now"

definition save_data :: "bank_management_system \<Rightarrow> bank_management_system" where
  "save_data self =
     self\<lparr>data_file :=
       Some (JObject (map (\<lambda>(acc_num, acc). (acc_num, get_details acc)) (accounts self)))\<rparr>"

text \<open>The list comprehension of \<open>generate_account_number\<close>; the first key that \<open>int\<close>
  rejects raises.\<close>

fun key_numbers :: "string list \<Rightarrow> error + int list" where
  "key_numbers [] = Inr []"
| "key_numbers (acc # accs) =
     (case py_int (drop 3 acc) of
        Inl e \<Rightarrow> Inl e
      | Inr n \<Rightarrow> (case key_numbers accs of Inl e \<Rightarrow> Inl e | Inr ns \<Rightarrow> Inr (n # ns)))"

text \<open>\<open>max\<close> of a list; it raises on the empty list.\<close>

definition py_max :: "int list \<Rightarrow> error + int" where
  "py_max ns = (case ns of [] \<Rightarrow> Inl (ValueError []) | n # rest \<Rightarrow> Inr (fold max rest n))"

definition generate_account_number :: "bank_management_system \<Rightarrow> error + string" where
  "generate_account_number self =
     (if accounts self = [] then Inr ''ACC1001''
      else case key_numbers (map fst (accounts self)) of
             Inl e \<Rightarrow> Inl e
           | Inr ns \<Rightarrow> (case py_max ns of
                         Inl e \<Rightarrow> Inl e
                       | Inr last_num \<Rightarrow> Inr (''ACC'' @ py_str (last_num + 1))))"

text \<open>
  \<open>create_account\<close>: first the body of its \<open>try\<close>, then the handler, which raises a plain
  \<open>Exception\<close> for every exception of the body. \<open>now1\<close> is the clock reading of the
  constructor, \<open>now2\<close> the one of the log entry.
\<close>

definition create_account_try :: "bank_management_system \<Rightarrow> string \<Rightarrow> string \<Rightarrow> rat \<Rightarrow> string
    \<Rightarrow> string \<Rightarrow> string \<Rightarrow> (error + string) \<times> bank_management_system" where
  "create_account_try self name' pin' initial_deposit account_type' now1 now2 =
     (if initial_deposit < 0
      then (Inl (InvalidAmountError ''Initial deposit cannot be negative''), self)
      else case generate_account_number self of
             Inl e \<Rightarrow> (Inl e, self)
           | Inr account_number' \<Rightarrow>
               (let account = Account account_number' name' pin' initial_deposit account_type' now1;
                    account = (if initial_deposit > 0
                               then add_transaction account ''Initial Deposit''
                                      initial_deposit initial_deposit now2
                               else account);
                    self = self\<lparr>accounts := AList.update account_number' account (accounts self)\<rparr>;
                    self = save_data self
                in (Inr account_number', self)))"

definition create_account :: "bank_management_system \<Rightarrow> string \<Rightarrow> string \<Rightarrow> rat \<Rightarrow> string
    \<Rightarrow> string \<Rightarrow> string \<Rightarrow> (error + string) \<times> bank_management_system" where
  "create_account self name' pin' initial_deposit account_type' now1 now2 =
     (case create_account_try self name' pin' initial_deposit account_type' now1 now2 of
        (Inl e, self') \<Rightarrow> (Inl (Exception e), self')
      | (Inr account_number', self') \<Rightarrow> (Inr account_number', self'))"

text \<open>\<open>get_account\<close> assigns nothing: it is a function of the directory.\<close>

definition get_account :: "bank_management_system \<Rightarrow> string \<Rightarrow> string \<Rightarrow> error + account" where
  "get_account self account_number' pin' =
     (case map_of (accounts self) account_number' of
        None \<Rightarrow> Inl (InvalidAccountError ''Account not found'')
      | Some account \<Rightarrow>
          if \<not> verify_pin account pin' then Inl (InvalidPINError ''Incorrect PIN'')
          else Inr account)"

definition delete_account :: "bank_management_system \<Rightarrow> string \<Rightarrow> string
    \<Rightarrow> (error + unit) \<times> bank_management_system" where
  "delete_account self account_number' pin' =
     (case get_account self account_number' pin' of
        Inl e \<Rightarrow> (Inl e, self)
      | Inr account \<Rightarrow>
          (let self = self\<lparr>accounts := AList.delete account_number' (accounts self)\<rparr>;
               self = save_data self
           in (Inr (), self)))"

subsection \<open>Sequences of operations\<close>

text \<open>
  A session of a shell, as both shells run it: \<open>create_account\<close> and \<open>delete_account\<close> on
  the directory, and \<open>deposit\<close>, \<open>withdraw\<close> and \<open>add_interest\<close> on the account that
  \<open>get_account\<close> returned, followed by \<open>save_data\<close> when the method raised nothing. The
  account returned is the object the dictionary holds, so the method changes the entry
  of the dictionary. An exception is reported and the session goes on.
\<close>

datatype operation =
    CreateAccount string string rat string string string
  | Deposit string string rat string
  | Withdraw string string rat string
  | AddInterest string string rat string
  | DeleteAccount string string

definition on_account :: "bank_management_system \<Rightarrow> string \<Rightarrow> string
    \<Rightarrow> (account \<Rightarrow> (error + unit) \<times> account) \<Rightarrow> bank_management_system" where
  "on_account self account_number' pin' method =
     (case get_account self account_number' pin' of
        Inl e \<Rightarrow> self
      | Inr account \<Rightarrow>
          (case method account of
             (Inl e, account') \<Rightarrow>
               self\<lparr>accounts := AList.update account_number' account' (accounts self)\<rparr>
           | (Inr u, account') \<Rightarrow>
               save_data (self\<lparr>accounts := AList.update account_number' account' (accounts self)\<rparr>)))"

fun step :: "bank_management_system \<Rightarrow> operation \<Rightarrow> bank_management_system" where
  "step self (CreateAccount name' pin' initial_deposit account_type' now1 now2) =
     snd (create_account self name' pin' initial_deposit account_type' now1 now2)"
| "step self (Deposit account_number' pin' amount now) =
     on_account self account_number' pin' (\<lambda>account. deposit account amount now)"
| "step self (Withdraw account_number' pin' amount now) =
     on_account self account_number' pin' (\<lambda>account. withdraw account amount now)"
| "step self (AddInterest account_number' pin' rate now) =
     on_account self account_number' pin' (\<lambda>account. add_interest account rate now)"
| "step self (DeleteAccount account_number' pin') =
     snd (delete_account self account_number' pin')"

definition run :: "bank_management_system \<Rightarrow> operation list \<Rightarrow> bank_management_system" where
  "run self ops = foldl step self ops"


subsection \<open>Notions of the specification\<close>




text \<open>A PIN of exactly four decimal digits, the format the specification requires.\<close>

definition four_digit_pin :: "string \<Rightarrow> bool" where
  "four_digit_pin p = (length p = 4 \<and> list_all is_digit p)"

text \<open>The keys of the dictionary.\<close>

definition keys :: "bank_management_system \<Rightarrow> string list" where
  "keys self = map fst (accounts self)"

text \<open>A property of accounts holds of every account that the directory holds.\<close>

definition every_account :: "(account \<Rightarrow> bool) \<Rightarrow> bank_management_system \<Rightarrow> bool" where
  "every_account P self = list_all (P \<circ> snd) (accounts self)"



subsection \<open>Example data\<close>

text \<open>The account of the scenario of the specification after its first deposit, and a
  directory that holds it.\<close>

definition alice :: account where
  "alice = \<lparr>account_number = ''ACC1001'', name = ''Alice'', pin = ''1234'', balance = 150,
      account_type = ''Savings'', creation_date = ''2024-01-01 10:00:00'',
      transactions =
        [\<lparr>tx_type = ''Initial Deposit'', tx_amount = 100, tx_balance = 100, tx_date = ''2024-01-01 10:00:00''\<rparr>,
         \<lparr>tx_type = ''Deposit'', tx_amount = 50, tx_balance = 150, tx_date = ''2024-01-02 09:30:00''\<rparr>]\<rparr>"

definition directory :: bank_management_system where
  "directory = \<lparr>accounts = [(''ACC1001'', alice)], data_file = None\<rparr>"

text \<open>The scenario of the specification as a session, and a session that credits interest
  at a negative rate.\<close>

definition session :: "operation list" where
  "session =
     [CreateAccount ''Alice'' ''1234'' 100 ''Savings'' ''2024-01-01 10:00:00'' ''2024-01-01 10:00:00'',
      Deposit ''ACC1001'' ''1234'' 50 ''2024-01-02 09:30:00'',
      Withdraw ''ACC1001'' ''1234'' 200 ''2024-01-02 09:31:00'',
      AddInterest ''ACC1001'' ''1234'' 3.5 ''2024-01-03 08:00:00'']"


text \<open>A directory of two accounts, each with a history of several kinds of entries.\<close>

definition ledger :: bank_management_system where
  "ledger = run (BankManagementSystem None ''2024-01-01 09:00:00'')
     (session @
      [CreateAccount ''Bob'' ''0420'' 0 ''Current'' ''2024-01-04 11:00:00'' ''2024-01-04 11:00:00'',
       Deposit ''ACC1002'' ''0420'' 20.5 ''2024-01-04 11:05:00'',
       Withdraw ''ACC1002'' ''0420'' 0.5 ''2024-01-04 11:06:00''])"






section \<open>Properties\<close>

subsection \<open>Account operations\<close>







subsection \<open>Authentication\<close>

text \<open>
  Claim C5. For every directory, identifier and PIN, \<open>get_account\<close> raises
  InvalidAccountError exactly when the identifier is no key of the dictionary, raises
  InvalidPINError exactly when the identifier is a key and the stored PIN differs from the
  candidate, and returns the stored account exactly when both match. It is a function of
  the directory and returns no new state.
\<close>

theorem get_account_spec:
  "(get_account self account_number' pin' = Inl (InvalidAccountError ''Account not found'')
      \<longleftrightarrow> account_number' \<notin> set (keys self)) \<and>
   (get_account self account_number' pin' = Inl (InvalidPINError ''Incorrect PIN'')
      \<longleftrightarrow> (\<exists>a. map_of (accounts self) account_number' = Some a \<and> pin a \<noteq> pin')) \<and>
   (\<forall>a. get_account self account_number' pin' = Inr a
      \<longleftrightarrow> map_of (accounts self) account_number' = Some a \<and> pin a = pin')"
proof -
  have absent: "account_number' \<notin> set (keys self)
      \<longleftrightarrow> map_of (accounts self) account_number' = None"
    by (simp add: keys_def map_of_eq_None_iff)
  show ?thesis
    unfolding absent
    by (auto simp: get_account_def verify_pin_def split: option.splits)
qed

theorem get_account_spec_witness:
  "get_account directory ''ACC1002'' ''1234'' = Inl (InvalidAccountError ''Account not found'') \<and>
   get_account directory ''ACC1001'' ''0000'' = Inl (InvalidPINError ''Incorrect PIN'') \<and>
   get_account directory ''ACC1001'' ''1234'' = Inr alice"
  using get_account_spec [of directory "''ACC1002''" "''1234''"]
        get_account_spec [of directory "''ACC1001''" "''0000''"]
        get_account_spec [of directory "''ACC1001''" "''1234''"]
  by (simp add: directory_def keys_def alice_def)

subsection \<open>Invariants of the accounts of a directory\<close>




lemma every_account_save_data [simp]:
  "every_account P (save_data self) = every_account P self"
  by (simp add: every_account_def save_data_def)








lemma every_account_empty [simp]: "every_account P (BankManagementSystem None now)"
  by (simp add: every_account_def BankManagementSystem_def load_data_def)















subsection \<open>Persistence\<close>

lemma json_transaction_inverse: "json_transaction (transaction_json t) = Some t"
  by (simp add: json_transaction_def transaction_json_def get_string_def get_number_def)

lemma those_json_transaction:
  "those (map (json_transaction \<circ> transaction_json) ts) = Some ts"
  by (induction ts) (simp_all add: json_transaction_inverse)

lemma load_account_inverse: "load_account (get_details a) now = Some a"
  by (simp add: load_account_def get_details_def get_string_def get_number_def
        get_transactions_def those_json_transaction Account_def)

lemma update_fresh: "k \<notin> fst ` set al \<Longrightarrow> AList.update k v al = al @ [(k, v)]"
  by (induction al) auto

lemma load_items_saved:
  "distinct (map fst al) \<Longrightarrow> fst ` set al \<inter> fst ` set accs = {}
   \<Longrightarrow> load_items (map (\<lambda>(acc_num, acc). (acc_num, get_details acc)) al) now accs = accs @ al"
proof (induction al arbitrary: accs)
  case Nil
  then show ?case by simp
next
  case (Cons x al)
  obtain k a where x: "x = (k, a)" by (cases x)
  have fresh: "k \<notin> fst ` set accs"
    using Cons.prems(2) x by auto
  have "fst ` set al \<inter> fst ` set (accs @ [(k, a)]) = {}"
    using Cons.prems x by auto
  then have "load_items (map (\<lambda>(acc_num, acc). (acc_num, get_details acc)) al) now (accs @ [(k, a)])
      = (accs @ [(k, a)]) @ al"
    using Cons.IH Cons.prems(1) by simp
  then show ?case
    using fresh by (simp add: x load_account_inverse update_fresh)
qed

text \<open>
  Claim C9. For every directory, of any number of accounts with any histories, a directory
  constructed on the file that \<open>save_data\<close> wrote holds, after its \<open>load_data\<close>, the same
  accounts under the same keys in the same order: identifier, holder name, PIN, balance,
  account type and creation timestamp of every account and kind, amount, resulting balance
  and timestamp of every entry of its log are the values before the save. The keys of a
  dictionary are distinct.
\<close>

theorem save_load_roundtrip:
  "distinct (keys self)
   \<Longrightarrow> accounts (BankManagementSystem (data_file (save_data self)) now) = accounts self"
  using load_items_saved [of "accounts self" "[]" now]
  by (simp add: BankManagementSystem_def load_data_def save_data_def keys_def)

theorem save_load_roundtrip_witness:
  "distinct (keys ledger) \<and>
   map (length \<circ> transactions \<circ> snd) (accounts ledger) = [3, 2] \<and>
   accounts (BankManagementSystem (data_file (save_data ledger)) ''2024-02-01 00:00:00'') =
     accounts ledger"
proof -
  have dict: "distinct (keys ledger)"
    by code_simp
  have logs: "map (length \<circ> transactions \<circ> snd) (accounts ledger) = [3, 2]"
    by code_simp
  show ?thesis
    using dict logs save_load_roundtrip [OF dict, of "''2024-02-01 00:00:00''"]
    by simp
qed

subsection \<open>Creating accounts\<close>

text \<open>
  Claim C2, amended. \<open>create_account\<close> fails when the initial deposit is negative, with a
  plain \<open>Exception\<close> that embeds the message of InvalidAmountError, and every failure of
  it is such an \<open>Exception\<close> and leaves the directory as it was. It tests neither the
  name nor the PIN: when the initial deposit is at least 0 and an identifier is
  generated, it inserts the account under that identifier with the name and the PIN it
  was given, whatever they are.
\<close>

theorem create_account_checks:
  "(initial_deposit < 0 \<longrightarrow>
      create_account self name' pin' initial_deposit account_type' now1 now2 =
        (Inl (Exception (InvalidAmountError ''Initial deposit cannot be negative'')), self)) \<and>
   (\<forall>e. fst (create_account self name' pin' initial_deposit account_type' now1 now2) = Inl e \<longrightarrow>
      (\<exists>e'. e = Exception e') \<and>
      snd (create_account self name' pin' initial_deposit account_type' now1 now2) = self) \<and>
   (\<forall>k. 0 \<le> initial_deposit \<and> generate_account_number self = Inr k \<longrightarrow>
      fst (create_account self name' pin' initial_deposit account_type' now1 now2) = Inr k \<and>
      (\<exists>a. map_of (accounts (snd (create_account self name' pin' initial_deposit
                                     account_type' now1 now2))) k = Some a \<and>
           account_number a = k \<and> name a = name' \<and> pin a = pin' \<and>
           balance a = initial_deposit))"
  by (auto simp: create_account_def create_account_try_def Let_def save_data_def
        AList.update_conv' Account_def add_transaction_def
        split: sum.splits)

theorem create_account_checks_witness:
  "fst (create_account directory ''Bob'' ''0420'' (- 1) ''Current'' ''2024-01-04 11:00:00'' ''2024-01-04 11:00:00'') =
     Inl (Exception (InvalidAmountError ''Initial deposit cannot be negative'')) \<and>
   snd (create_account directory ''Bob'' ''0420'' (- 1) ''Current'' ''2024-01-04 11:00:00'' ''2024-01-04 11:00:00'') =
     directory \<and>
   generate_account_number directory = Inr ''ACC1002'' \<and>
   fst (create_account directory [] ''12ab7'' 0 ''Current'' ''2024-01-04 11:00:00'' ''2024-01-04 11:00:00'') =
     Inr ''ACC1002''"
proof -
  have gen: "generate_account_number directory = Inr ''ACC1002''"
    by code_simp
  show ?thesis
    using gen
      create_account_checks [of "- 1" directory "''Bob''" "''0420''" "''Current''"
        "''2024-01-04 11:00:00''" "''2024-01-04 11:00:00''"]
      create_account_checks [of 0 directory "[]" "''12ab7''" "''Current''"
        "''2024-01-04 11:00:00''" "''2024-01-04 11:00:00''"]
    by simp
qed

text \<open>
  Claim C2 as stated fails: a negative initial deposit raises a plain \<open>Exception\<close>, not
  InvalidAmountError, and an account with an empty name and a PIN that is not four
  digits is inserted.
\<close>

theorem create_account_validation_counterexample:
  "fst (create_account directory ''Bob'' ''0420'' (- 1) ''Current'' ''2024-01-04 11:00:00'' ''2024-01-04 11:00:00'')
     = Inl (Exception (InvalidAmountError ''Initial deposit cannot be negative'')) \<and>
   fst (create_account directory ''Bob'' ''0420'' (- 1) ''Current'' ''2024-01-04 11:00:00'' ''2024-01-04 11:00:00'')
     \<noteq> Inl (InvalidAmountError ''Initial deposit cannot be negative'') \<and>
   \<not> four_digit_pin ''12ab7'' \<and>
   fst (create_account directory [] ''12ab7'' 0 ''Current'' ''2024-01-04 11:00:00'' ''2024-01-04 11:00:00'')
     = Inr ''ACC1002'' \<and>
   map (name \<circ> snd) (accounts (snd (create_account directory [] ''12ab7'' 0 ''Current''
     ''2024-01-04 11:00:00'' ''2024-01-04 11:00:00''))) = [''Alice'', []] \<and>
   map (pin \<circ> snd) (accounts (snd (create_account directory [] ''12ab7'' 0 ''Current''
     ''2024-01-04 11:00:00'' ''2024-01-04 11:00:00''))) = [''1234'', ''12ab7'']"
  by code_simp

subsection \<open>Integer literals\<close>

text \<open>\<open>int\<close> reads back what \<open>str\<close> prints, and reads every decimal numeral.\<close>

lemma digit_char_digit [simp]: "d < 10 \<Longrightarrow> is_digit (digit_char d)"
  by (simp add: is_digit_def digit_char_def)

lemma digit_val_digit_char [simp]: "d < 10 \<Longrightarrow> digit_val (digit_char d) = d"
  by (simp add: digit_val_def digit_char_def)



declare str_nat.simps [simp del]











subsection \<open>Generated identifiers\<close>






















end
